theory Spec2Isabelle
  imports Main "HOL-Library.AList"
begin

section \<open>Text primitives\<close>

text \<open>
  Python strings are modelled as \<open>string\<close>; a \<open>char\<close> stands for one code point below 256.
  The two character classes are the ones Python's \<open>re\<close> and \<open>str.strip\<close> use on \<open>str\<close> for these
  code points: \<open>\s\<close> / \<open>str.isspace\<close> and \<open>\w\<close>.
\<close>

definition newline :: char where
  "newline = CHR 0x0A"

definition is_space :: "char \<Rightarrow> bool" where
  "is_space c =
     (let n = (of_char c :: nat)
      in (9 \<le> n \<and> n \<le> 13) \<or> (28 \<le> n \<and> n \<le> 32) \<or> n = 133 \<or> n = 160)"

definition is_word :: "char \<Rightarrow> bool" where
  "is_word c =
     (let n = (of_char c :: nat)
      in (48 \<le> n \<and> n \<le> 57) \<or> (65 \<le> n \<and> n \<le> 90) \<or> n = 95 \<or> (97 \<le> n \<and> n \<le> 122)
         \<or> n = 170 \<or> n = 178 \<or> n = 179 \<or> n = 181 \<or> n = 185 \<or> n = 186
         \<or> (188 \<le> n \<and> n \<le> 190) \<or> (192 \<le> n \<and> n \<le> 214) \<or> (216 \<le> n \<and> n \<le> 246)
         \<or> 248 \<le> n)"

text \<open>\<open>s.strip()\<close> and \<open>s.strip(chars)\<close>: every leading and trailing character of the class goes.\<close>

definition strip_with :: "(char \<Rightarrow> bool) \<Rightarrow> string \<Rightarrow> string" where
  "strip_with p s = rev (dropWhile p (rev (dropWhile p s)))"

definition strip :: "string \<Rightarrow> string" where
  "strip s = strip_with is_space s"

definition strip_chars :: "string \<Rightarrow> string \<Rightarrow> string" where
  "strip_chars chars s = strip_with (\<lambda>c. c \<in> set chars) s"

text \<open>\<open>s.split(sep)\<close> for a one-character separator: never empty, \<open>''.split(sep) = ['']\<close>.\<close>

fun split :: "char \<Rightarrow> string \<Rightarrow> string list" where
  "split sep [] = [[]]"
| "split sep (c # cs) =
     (let r = split sep cs in if c = sep then [] # r else (c # hd r) # tl r)"

text \<open>\<open>s.split(sep, 1)\<close> when \<open>sep in s\<close>: the text before the first separator and the text after it.\<close>

definition split1 :: "char \<Rightarrow> string \<Rightarrow> string \<times> string" where
  "split1 sep s = (takeWhile (\<lambda>c. c \<noteq> sep) s, tl (dropWhile (\<lambda>c. c \<noteq> sep) s))"

text \<open>\<open>sep.join(xs)\<close>.\<close>

fun join :: "string \<Rightarrow> string list \<Rightarrow> string" where
  "join sep [] = []"
| "join sep [x] = x"
| "join sep (x # y # ys) = x @ sep @ join sep (y # ys)"

definition split_lines :: "string \<Rightarrow> string list" where
  "split_lines s = split newline s"

definition join_lines :: "string list \<Rightarrow> string" where
  "join_lines ls = join [newline] ls"

text \<open>\<open>s.count(sub)\<close>: the number of non-overlapping occurrences, scanning from the left.\<close>

function count_sub :: "string \<Rightarrow> string \<Rightarrow> nat" where
  "count_sub sub s =
     (if sub = [] then Suc (length s)
      else if length s < length sub then 0
      else if take (length sub) s = sub then Suc (count_sub sub (drop (length sub) s))
      else count_sub sub (tl s))"
  by pat_completeness auto
termination
  by (relation "measure (\<lambda>(sub, s). length s)") (auto simp: not_less neq_Nil_conv)

declare count_sub.simps [simp del]

text \<open>\<open>str(n)\<close> for a non-negative integer.\<close>

definition digit_char :: "nat \<Rightarrow> char" where
  "digit_char d = char_of (48 + d)"

function str_nat :: "nat \<Rightarrow> string" where
  "str_nat n = (if n < 10 then [digit_char n] else str_nat (n div 10) @ [digit_char (n mod 10)])"
  by pat_completeness auto
termination
  by (relation "measure id") auto

declare str_nat.simps [simp del]

section \<open>The syntax rules (class VMLSyntax)\<close>

text \<open>
  Each line-anchored rule is a matcher that returns what \<open>re.match\<close> returns on one line of
  \<open>content.split('\n')\<close>, that is on a string without a newline: \<open>None\<close> where the pattern does
  not match, the captured groups where it does. The pattern is quoted above each matcher.
\<close>

text \<open>\<^verbatim>\<open>METADATA_PATTERN = r'^---\s*$'\<close>\<close>

definition match_METADATA :: "string \<Rightarrow> bool" where
  "match_METADATA line = (take 3 line = ''---'' \<and> list_all is_space (drop 3 line))"

text \<open>\<^verbatim>\<open>DIRECTIVE_PATTERN = r'^@(\w+)(?:\[([^\]]*)\])?\s*(.*)$'\<close>: groups 1, 2 (absent when the
  bracket part is) and 3.\<close>

definition match_DIRECTIVE :: "string \<Rightarrow> (string \<times> string option \<times> string) option" where
  "match_DIRECTIVE line =
     (case line of
        [] \<Rightarrow> None
      | c # rest \<Rightarrow>
          if c \<noteq> CHR ''@'' then None
          else
            let name = takeWhile is_word rest;
                r1 = dropWhile is_word rest
            in if name = [] then None
               else if r1 \<noteq> [] \<and> hd r1 = CHR ''['' \<and> CHR '']'' \<in> set (tl r1)
                 then Some (name, Some (takeWhile (\<lambda>c. c \<noteq> CHR '']'') (tl r1)),
                            dropWhile is_space (tl (dropWhile (\<lambda>c. c \<noteq> CHR '']'') (tl r1))))
                 else Some (name, None, dropWhile is_space r1))"

text \<open>\<^verbatim>\<open>SECTION_START_PATTERN = r'^::\s*(\w+)(?:\[([^\]]*)\])?\s*$'\<close>: groups 1 and 2.\<close>

definition match_SECTION_START :: "string \<Rightarrow> (string \<times> string option) option" where
  "match_SECTION_START line =
     (if take 2 line \<noteq> ''::'' then None
      else
        let r0 = dropWhile is_space (drop 2 line);
            name = takeWhile is_word r0;
            r1 = dropWhile is_word r0
        in if name = [] then None
           else if list_all is_space r1 then Some (name, None)
           else if hd r1 = CHR ''['' \<and> CHR '']'' \<in> set (tl r1)
                   \<and> list_all is_space (tl (dropWhile (\<lambda>c. c \<noteq> CHR '']'') (tl r1)))
             then Some (name, Some (takeWhile (\<lambda>c. c \<noteq> CHR '']'') (tl r1)))
             else None)"

text \<open>\<^verbatim>\<open>SECTION_END_PATTERN = r'^::\s*/(\w+)\s*$'\<close>: group 1.\<close>

definition match_SECTION_END :: "string \<Rightarrow> string option" where
  "match_SECTION_END line =
     (if take 2 line \<noteq> ''::'' then None
      else
        case dropWhile is_space (drop 2 line) of
          [] \<Rightarrow> None
        | c # r \<Rightarrow>
            if c = CHR ''/'' \<and> takeWhile is_word r \<noteq> [] \<and> list_all is_space (dropWhile is_word r)
            then Some (takeWhile is_word r) else None)"

text \<open>\<^verbatim>\<open>HEADING_PATTERN = r'^(#{1,6})\s+(.+)$'\<close>: groups 1 and 2. The run of \<open>#\<close> is taken whole
  (what follows it must be white space), so a run of seven or more never matches. When only
  white space follows the run, \<open>\s+\<close> gives its last character back to \<open>.+\<close>.\<close>

definition match_HEADING :: "string \<Rightarrow> (string \<times> string) option" where
  "match_HEADING line =
     (let hashes = takeWhile (\<lambda>c. c = CHR ''#'') line;
          r = dropWhile (\<lambda>c. c = CHR ''#'') line;
          ws = takeWhile is_space r;
          rest = dropWhile is_space r
      in if 1 \<le> length hashes \<and> length hashes \<le> 6 \<and> ws \<noteq> [] then
           if rest \<noteq> [] then Some (hashes, rest)
           else if 2 \<le> length ws then Some (hashes, [last ws])
           else None
         else None)"

text \<open>\<^verbatim>\<open>TABLE_SEPARATOR = r'^\|[\s\-:|]+\|$'\<close>\<close>

definition match_TABLE_SEPARATOR :: "string \<Rightarrow> bool" where
  "match_TABLE_SEPARATOR line =
     (3 \<le> length line \<and> hd line = CHR ''|'' \<and> last line = CHR ''|''
      \<and> list_all (\<lambda>c. is_space c \<or> c = CHR ''-'' \<or> c = CHR '':'' \<or> c = CHR ''|'') (butlast (tl line)))"

text \<open>\<^verbatim>\<open>TABLE_ROW = r'^\|(.+)\|$'\<close>\<close>

definition match_TABLE_ROW :: "string \<Rightarrow> bool" where
  "match_TABLE_ROW line = (3 \<le> length line \<and> hd line = CHR ''|'' \<and> last line = CHR ''|'')"

text \<open>\<^verbatim>\<open>CUSTOM_MARKUP\<close>, in the order the dictionary is written (the order its items are
  iterated in).\<close>

definition CUSTOM_MARKUP :: "(string \<times> string \<times> string) list" where
  "CUSTOM_MARKUP =
     [(''emphasis'', ''!!'', ''!!''),
      (''context'', ''<~'', ''~>''),
      (''note'', ''(*'', ''*)''),
      (''warning'', ''/!'', ''!/''),
      (''success'', ''/+'', ''+/''),
      (''code_ref'', ''@['', '']@'')]"


subsection \<open>Inline rules and \<open>re.sub\<close>\<close>

text \<open>
  Every inline rule is an opening string, one captured group and a closing string. The group is
  either one or more characters other than a given one (\<open>[^c]+\<close>, greedy) or one or more
  characters other than a newline, as few as possible (\<open>.+?\<close>).
\<close>

datatype inline_pattern =
  UpTo string char string
| Lazy string string

text \<open>\<^verbatim>\<open>VARIABLE_PATTERN = r'\$\{([^}]+)\}'\<close>, \<^verbatim>\<open>TEMPLATE_PATTERN = r'%\{([^}]+)\}'\<close>,
  \<^verbatim>\<open>ANNOTATION_PATTERN = r'\[\[([^\]]+)\]\]'\<close>, \<^verbatim>\<open>BOLD_PATTERN = r'\*\*(.+?)\*\*'\<close>,
  \<^verbatim>\<open>ITALIC_PATTERN = r'\*(.+?)\*'\<close>, \<^verbatim>\<open>CODE_INLINE_PATTERN = r'`(.+?)`'\<close>\<close>

definition VARIABLE_PATTERN :: inline_pattern where
  "VARIABLE_PATTERN = UpTo ''${'' (CHR ''}'') ''}''"

definition TEMPLATE_PATTERN :: inline_pattern where
  "TEMPLATE_PATTERN = UpTo ''%{'' (CHR ''}'') ''}''"

definition ANNOTATION_PATTERN :: inline_pattern where
  "ANNOTATION_PATTERN = UpTo ''[['' (CHR '']'') '']]''"

definition BOLD_PATTERN :: inline_pattern where
  "BOLD_PATTERN = Lazy ''**'' ''**''"

definition ITALIC_PATTERN :: inline_pattern where
  "ITALIC_PATTERN = Lazy ''*'' ''*''"

definition CODE_INLINE_PATTERN :: inline_pattern where
  "CODE_INLINE_PATTERN = Lazy [CHR 0x60] [CHR 0x60]"

text \<open>The shortest non-empty, newline-free group after which the closing string stands: the group
  and the text after the closing string.\<close>

fun lazy_until :: "string \<Rightarrow> string \<Rightarrow> (string \<times> string) option" where
  "lazy_until cl [] = None"
| "lazy_until cl (c # cs) =
     (if c = newline then None
      else if take (length cl) cs = cl then Some ([c], drop (length cl) cs)
      else case lazy_until cl cs of
             None \<Rightarrow> None
           | Some (g, rest) \<Rightarrow> Some (c # g, rest))"

text \<open>A match of the pattern at the start of \<open>s\<close>: group 1 and the text after the match.\<close>

fun match_inline :: "inline_pattern \<Rightarrow> string \<Rightarrow> (string \<times> string) option" where
  "match_inline (UpTo op c cl) s =
     (if take (length op) s \<noteq> op then None
      else
        let g = takeWhile (\<lambda>x. x \<noteq> c) (drop (length op) s);
            r = dropWhile (\<lambda>x. x \<noteq> c) (drop (length op) s)
        in if g \<noteq> [] \<and> take (length cl) r = cl then Some (g, drop (length cl) r) else None)"
| "match_inline (Lazy op cl) s =
     (if take (length op) s \<noteq> op then None else lazy_until cl (drop (length op) s))"

lemma lazy_until_shorter: "lazy_until cl s = Some (g, rest) \<Longrightarrow> length rest < length s"
  by (induction s arbitrary: g rest) (auto split: if_splits option.splits)

lemma match_inline_shorter: "match_inline p s = Some (g, rest) \<Longrightarrow> length rest < length s"
proof (cases p)
  case (UpTo op c cl)
  assume m: "match_inline p s = Some (g, rest)"
  let ?d = "drop (length op) s"
  from m UpTo have g: "takeWhile (\<lambda>x. x \<noteq> c) ?d \<noteq> []"
    and rest: "rest = drop (length cl) (dropWhile (\<lambda>x. x \<noteq> c) ?d)"
    by (auto simp: Let_def split: if_splits)
  have "length (dropWhile (\<lambda>x. x \<noteq> c) ?d) < length ?d"
    using g by (metis length_dropWhile_le takeWhile_dropWhile_id append_self_conv2
        le_neq_implies_less length_append add_cancel_right_left length_0_conv)
  then show ?thesis using rest by simp
next
  case (Lazy op cl)
  assume "match_inline p s = Some (g, rest)"
  with Lazy have "lazy_until cl (drop (length op) s) = Some (g, rest)"
    by (auto split: if_splits)
  from lazy_until_shorter[OF this] show ?thesis by simp
qed

text \<open>\<open>re.sub(pattern, repl, text)\<close>: the leftmost match is replaced by \<open>repl\<close> of its group and
  the search goes on after it; a character at which no match starts is copied.\<close>

function re_sub :: "inline_pattern \<Rightarrow> (string \<Rightarrow> string) \<Rightarrow> string \<Rightarrow> string" where
  "re_sub p repl s =
     (case s of
        [] \<Rightarrow> []
      | c # cs \<Rightarrow>
          (case match_inline p s of
             Some (g, rest) \<Rightarrow> repl g @ re_sub p repl rest
           | None \<Rightarrow> c # re_sub p repl cs))"
  by pat_completeness auto
termination
  by (relation "measure (\<lambda>(p, repl, s). length s)") (auto dest: match_inline_shorter)

declare re_sub.simps [simp del]

text \<open>The replacement \<open><tag>\1</tag>\<close>.\<close>

definition tagged :: "string \<Rightarrow> string \<Rightarrow> string" where
  "tagged tag g = ''<'' @ tag @ ''>'' @ g @ ''</'' @ tag @ ''>''"

section \<open>Elements and the parser state\<close>

datatype VMLElementType =
  HEADING | PARAGRAPH | LIST | CODE_BLOCK | QUOTE | LINK | IMAGE | TABLE | METADATA | DIRECTIVE
| VARIABLE | TEMPLATE | ANNOTATION | SECTION | EMPHASIS | CUSTOM

text \<open>The values an attribute dictionary holds: strings and \<open>True\<close> (parsed attributes), the
  heading level, the parsed parameters of a directive, and the cells of a table.\<close>

datatype attr_value =
  AStr string
| ABool bool
| AInt nat
| ADict "(string \<times> attr_value) list"
| AStrList "string list"
| ARows "string list list"

text \<open>A dictionary keeps its keys in insertion order; assigning to a key that is present
  replaces its value in place. That is \<open>AList.update\<close>.\<close>

type_synonym attrs = "(string \<times> attr_value) list"

datatype VMLElement =
  VMLElement (elem_type: VMLElementType) (content: string) (attributes: attrs)
             (children: "VMLElement list option") (line_number: nat)

record VMLParser =
  elements :: "VMLElement list"
  metadata :: "(string \<times> string) list"
  variables :: "(string \<times> string) list"
  templates :: "(string \<times> string) list"

text \<open>\<open>VMLParser()\<close>\<close>

definition VMLParser_init :: VMLParser where
  "VMLParser_init = \<lparr>elements = [], metadata = [], variables = [], templates = []\<rparr>"

text \<open>The exceptions the parser's statements can raise: \<open>AttributeError\<close>, where \<open>.group\<close> is
  called on the \<open>None\<close> of a failed match, and the interpreter's \<open>RecursionError\<close>, where sections
  are nested deeper than the call stack allows. \<open>error_message\<close> is \<open>str(e)\<close>; for
  \<open>RecursionError\<close> it is the start of the interpreter's message, which may go on to say where
  the stack ran out.\<close>

datatype error = RecursionError | AttributeError

definition error_message :: "error \<Rightarrow> string" where
  "error_message e =
     (case e of
        RecursionError \<Rightarrow> ''maximum recursion depth exceeded''
      | AttributeError \<Rightarrow> [CHR 0x27] @ ''NoneType'' @ [CHR 0x27] @ '' object has no attribute ''
                          @ [CHR 0x27] @ ''group'' @ [CHR 0x27])"

section \<open>The parser (class VMLParser)\<close>

definition process_inline_elements :: "string \<Rightarrow> string" where
  "process_inline_elements text0 =
     (let text1 = re_sub VARIABLE_PATTERN (tagged ''var'') text0;
          text2 = re_sub TEMPLATE_PATTERN (tagged ''template'') text1;
          text3 = re_sub ANNOTATION_PATTERN (tagged ''annotation'') text2;
          text4 = fold (\<lambda>(markup_type, start, end) t. re_sub (Lazy start end) (tagged markup_type) t)
                       CUSTOM_MARKUP text3;
          text5 = re_sub BOLD_PATTERN (tagged ''b'') text4;
          text6 = re_sub ITALIC_PATTERN (tagged ''i'') text5;
          text7 = re_sub CODE_INLINE_PATTERN (tagged ''code'') text6
      in text7)"

definition parse_attributes :: "string \<Rightarrow> attrs" where
  "parse_attributes attr_string =
     (if attr_string = [] then []
      else fold (\<lambda>pair attributes.
                   if CHR ''='' \<in> set pair then
                     (case split1 (CHR ''='') pair of
                        (key, val) \<Rightarrow>
                          AList.update (strip key)
                            (AStr (strip_chars [CHR 0x22, CHR 0x27] (strip val))) attributes)
                   else AList.update (strip pair) (ABool True) attributes)
                (split (CHR '','') attr_string) [])"

definition process_metadata :: "string list \<Rightarrow> (string \<times> string) list \<Rightarrow> (string \<times> string) list" where
  "process_metadata lines md =
     fold (\<lambda>line m.
             if CHR '':'' \<in> set line then
               (case split1 (CHR '':'') line of (key, val) \<Rightarrow> AList.update (strip key) (strip val) m)
             else m)
          lines md"

text \<open>\<open>_parse_metadata_block\<close>: the index to go on from and the metadata. A block that no
  delimiter closes is consumed and leaves the metadata as it was.\<close>

function parse_metadata_block ::
  "string list \<Rightarrow> nat \<Rightarrow> string list \<Rightarrow> (string \<times> string) list \<Rightarrow> nat \<times> (string \<times> string) list" where
  "parse_metadata_block lines i metadata_lines md =
     (if i < length lines then
        if match_METADATA (lines ! i) then (i + 1, process_metadata metadata_lines md)
        else parse_metadata_block lines (i + 1) (metadata_lines @ [lines ! i]) md
      else (i, md))"
  by pat_completeness auto
termination
  by (relation "measure (\<lambda>(lines, i, ml, md). length lines - i)") auto

declare parse_metadata_block.simps [simp del]

definition parse_directive :: "string \<times> string option \<times> string \<Rightarrow> nat \<Rightarrow> VMLElement" where
  "parse_directive m line_num =
     (case m of (directive_name, params, cont) \<Rightarrow>
        VMLElement DIRECTIVE cont
          [(''directive'', AStr directive_name),
           (''params'', ADict (parse_attributes (case params of None \<Rightarrow> [] | Some p \<Rightarrow> p)))]
          None line_num)"

text \<open>The scan of \<open>_parse_section\<close> for the end of the section: the lines of its content and the
  index the scan stops at.\<close>

function section_scan ::
  "string list \<Rightarrow> string \<Rightarrow> nat \<Rightarrow> nat \<Rightarrow> string list \<Rightarrow> string list \<times> nat" where
  "section_scan lines section_name i nesting_level content_lines =
     (if i < length lines \<and> 0 < nesting_level then
        if match_SECTION_START (lines ! i) \<noteq> None then
          section_scan lines section_name (i + 1) (nesting_level + 1) (content_lines @ [lines ! i])
        else
          (case match_SECTION_END (lines ! i) of
             Some end_name \<Rightarrow>
               if end_name = section_name then
                 if nesting_level - 1 = 0 then (content_lines, i)
                 else section_scan lines section_name (i + 1) (nesting_level - 1)
                        (content_lines @ [lines ! i])
               else section_scan lines section_name (i + 1) nesting_level (content_lines @ [lines ! i])
           | None \<Rightarrow>
               section_scan lines section_name (i + 1) nesting_level (content_lines @ [lines ! i]))
      else (content_lines, i))"
  by pat_completeness auto
termination
  by (relation "measure (\<lambda>(lines, nm, i, n, cl). length lines - i)") auto

declare section_scan.simps [simp del]

text \<open>The element \<open>_parse_section\<close> builds from the groups of the start line and the parsed
  children.\<close>

definition section_element :: "string \<Rightarrow> string option \<Rightarrow> VMLElement list \<Rightarrow> nat \<Rightarrow> VMLElement" where
  "section_element section_name params kids start_idx =
     VMLElement SECTION section_name
       (AList.update ''name'' (AStr section_name)
          (parse_attributes (case params of None \<Rightarrow> [] | Some p \<Rightarrow> p)))
       (Some kids) start_idx"

definition parse_heading :: "string \<Rightarrow> nat \<Rightarrow> error + VMLElement" where
  "parse_heading line line_num =
     (case match_HEADING line of
        None \<Rightarrow> Inl AttributeError
      | Some (hashes, cont) \<Rightarrow>
          Inr (VMLElement HEADING (process_inline_elements cont) [(''level'', AInt (length hashes))]
                 None line_num))"

definition parse_table_row :: "string \<Rightarrow> string list" where
  "parse_table_row line = map strip (split (CHR ''|'') (strip_chars ''|'' line))"

definition parse_table_alignment :: "string \<Rightarrow> string list" where
  "parse_table_alignment line =
     map (\<lambda>cell.
            if cell \<noteq> [] \<and> hd cell = CHR '':'' \<and> last cell = CHR '':'' then ''center''
            else if cell \<noteq> [] \<and> last cell = CHR '':'' then ''right''
            else ''left'')
         (parse_table_row line)"

function table_rows :: "string list \<Rightarrow> nat \<Rightarrow> string list list \<Rightarrow> string list list \<times> nat" where
  "table_rows lines i rows =
     (if i < length lines \<and> match_TABLE_ROW (lines ! i)
      then table_rows lines (i + 1) (rows @ [parse_table_row (lines ! i)])
      else (rows, i))"
  by pat_completeness auto
termination
  by (relation "measure (\<lambda>(lines, i, rows). length lines - i)") auto

declare table_rows.simps [simp del]

definition parse_table :: "string list \<Rightarrow> nat \<Rightarrow> VMLElement \<times> nat" where
  "parse_table lines start_idx =
     (case table_rows lines (start_idx + 2) [] of
        (rows, i) \<Rightarrow>
          (VMLElement TABLE []
             [(''headers'', AStrList (parse_table_row (lines ! start_idx))),
              (''alignment'', AStrList (parse_table_alignment (lines ! (start_idx + 1)))),
              (''rows'', ARows rows)]
             None start_idx, i))"

definition parse_paragraph :: "string \<Rightarrow> nat \<Rightarrow> VMLElement" where
  "parse_paragraph line line_num =
     VMLElement PARAGRAPH (process_inline_elements line) [] None line_num"


lemma parse_metadata_block_index: "i \<le> fst (parse_metadata_block lines i ml md)"
proof (induction lines i ml md rule: parse_metadata_block.induct)
  case (1 lines i metadata_lines md)
  then show ?case
    by (subst parse_metadata_block.simps) (auto dest: Suc_leD)
qed

lemma section_scan_index: "i \<le> snd (section_scan lines nm i n cl)"
proof (induction lines nm i n cl rule: section_scan.induct)
  case (1 lines section_name i nesting_level content_lines)
  then show ?case
    by (subst section_scan.simps) (auto dest: Suc_leD split: option.splits)
qed

lemma table_rows_index: "i \<le> snd (table_rows lines i rows)"
proof (induction lines i rows rule: table_rows.induct)
  case (1 lines i rows)
  then show ?case
    by (subst table_rows.simps) (auto dest: Suc_leD)
qed

lemma parse_metadata_block_index_dest:
  "parse_metadata_block lines i ml md = (j, md') \<Longrightarrow> i \<le> j"
  using parse_metadata_block_index[of i lines ml md] by simp

lemma section_scan_index_dest: "section_scan lines nm i n cl = (c, j) \<Longrightarrow> i \<le> j"
  using section_scan_index[of i lines nm n cl] by simp

lemma table_rows_index_dest: "table_rows lines i rows = (r, j) \<Longrightarrow> i \<le> j"
  using table_rows_index[of i lines rows] by simp

lemma parse_table_index_dest: "parse_table lines i = (e, j) \<Longrightarrow> i + 2 \<le> j"
  by (auto simp: parse_table_def split: prod.splits dest: table_rows_index_dest)

definition append_element :: "VMLElement \<Rightarrow> VMLParser \<Rightarrow> VMLParser" where
  "append_element e st = st\<lparr>elements := elements st @ [e]\<rparr>"

text \<open>
  The \<open>while\<close> loop of \<open>parse\<close>, with \<open>_parse_section\<close> in its section branch. \<open>limit\<close> is the number
  of nested \<open>parse\<close> calls the interpreter's stack still allows: where a section would need one
  more, the call raises \<open>RecursionError\<close>. The children of a section are parsed by a new
  \<open>VMLParser()\<close> whose state is dropped. The result is \<open>self.elements\<close> or the exception, and the
  state of the parser as the call leaves it.
\<close>

function parse_loop ::
  "nat \<Rightarrow> string list \<Rightarrow> nat \<Rightarrow> VMLParser \<Rightarrow> (error + VMLElement list) \<times> VMLParser" where
  "parse_loop limit lines i st =
     (if i < length lines then
        if strip (lines ! i) = [] then parse_loop limit lines (i + 1) st
        else if match_METADATA (lines ! i) then
          (case parse_metadata_block lines (i + 1) [] (metadata st) of
             (j, md) \<Rightarrow> parse_loop limit lines j (st\<lparr>metadata := md\<rparr>))
        else
          (case match_DIRECTIVE (lines ! i) of
             Some directive_match \<Rightarrow>
               parse_loop limit lines (i + 1) (append_element (parse_directive directive_match i) st)
           | None \<Rightarrow>
               if match_SECTION_START (lines ! i) \<noteq> None then
                 (case match_SECTION_START (lines ! i) of
                    None \<Rightarrow> (Inl AttributeError, st)
                  | Some (section_name, params) \<Rightarrow>
                      (case section_scan lines section_name (i + 1) 1 [] of
                         (content_lines, j) \<Rightarrow>
                           if limit = 0 then (Inl RecursionError, st)
                           else
                             (case fst (parse_loop (limit - 1) (split_lines (join_lines content_lines)) 0
                                          (VMLParser_init\<lparr>elements := []\<rparr>)) of
                                Inl e \<Rightarrow> (Inl e, st)
                              | Inr kids \<Rightarrow>
                                  parse_loop limit lines (j + 1)
                                    (append_element (section_element section_name params kids i) st))))
               else if match_HEADING (lines ! i) \<noteq> None then
                 (case parse_heading (lines ! i) i of
                    Inl e \<Rightarrow> (Inl e, st)
                  | Inr element \<Rightarrow> parse_loop limit lines (i + 1) (append_element element st))
               else if i + 1 < length lines \<and> match_TABLE_SEPARATOR (lines ! (i + 1)) then
                 (case parse_table lines i of
                    (element, j) \<Rightarrow> parse_loop limit lines j (append_element element st))
               else parse_loop limit lines (i + 1) (append_element (parse_paragraph (lines ! i) i) st))
      else (Inr (elements st), st))"
  by pat_completeness auto
termination
  by (relation "measures [\<lambda>(limit, lines, i, st). limit, \<lambda>(limit, lines, i, st). length lines - i]")
     (auto dest!: parse_metadata_block_index_dest[OF sym] section_scan_index_dest[OF sym]
                  parse_table_index_dest[OF sym])

declare parse_loop.simps [simp del]

text \<open>\<open>parse(content)\<close>: \<open>self.elements\<close> is emptied, \<open>self.metadata\<close> is left as it is.\<close>

definition parse :: "nat \<Rightarrow> string \<Rightarrow> VMLParser \<Rightarrow> (error + VMLElement list) \<times> VMLParser" where
  "parse limit code st = parse_loop limit (split_lines code) 0 (st\<lparr>elements := []\<rparr>)"


section \<open>Validation and formatting (class VMLLanguageHandler)\<close>

text \<open>The handler owns a parser; its converter owns a second one.\<close>

record VMLConverter =
  converter_parser :: VMLParser

record VMLLanguageHandler =
  parser :: VMLParser
  converter :: VMLConverter

definition VMLLanguageHandler_init :: VMLLanguageHandler where
  "VMLLanguageHandler_init =
     \<lparr>parser = VMLParser_init, converter = \<lparr>converter_parser = VMLParser_init\<rparr>\<rparr>"

text \<open>\<^verbatim>\<open>re.match(r'^::\s*(\w+)', line)\<close> of \<open>validate_syntax\<close>: groups 0 (the matched text) and 1.\<close>

definition match_section_tag :: "string \<Rightarrow> (string \<times> string) option" where
  "match_section_tag line =
     (if take 2 line \<noteq> ''::'' then None
      else
        let ws = takeWhile is_space (drop 2 line);
            name = takeWhile is_word (dropWhile is_space (drop 2 line))
        in if name = [] then None else Some (''::'' @ ws @ name, name))"

definition endswith :: "string \<Rightarrow> string \<Rightarrow> bool" where
  "endswith s suffix = (length suffix \<le> length s \<and> drop (length s - length suffix) s = suffix)"

text \<open>The section check of one line, on the stack of open sections and the errors so far.\<close>

definition check_section :: "nat \<Rightarrow> string \<Rightarrow> string list \<times> string list \<Rightarrow> string list \<times> string list" where
  "check_section i line acc =
     (case acc of (open_sections, errors) \<Rightarrow>
        (case match_section_tag line of
           None \<Rightarrow> (open_sections, errors)
         | Some (group0, section_name) \<Rightarrow>
             if endswith group0 ''/'' then
               if open_sections = [] \<or> last open_sections \<noteq> section_name
               then (open_sections,
                     errors @ [''Line '' @ str_nat (i + 1) @ '': Unmatched section closing tag: ''
                               @ section_name])
               else (butlast open_sections, errors)
             else (open_sections @ [section_name], errors)))"

text \<open>The markup check of one line: one error for each delimiter pair whose two counts differ.\<close>

definition check_markup :: "nat \<Rightarrow> string \<Rightarrow> string list \<Rightarrow> string list" where
  "check_markup i line errors =
     fold (\<lambda>(markup_type, start, end) errs.
             if count_sub start line \<noteq> count_sub end line
             then errs @ [''Line '' @ str_nat (i + 1) @ '': Unclosed '' @ markup_type @ '' markup'']
             else errs)
          CUSTOM_MARKUP errors"

definition check_line :: "nat \<times> string \<Rightarrow> string list \<times> string list \<Rightarrow> string list \<times> string list" where
  "check_line il acc =
     (case il of (i, line) \<Rightarrow>
        (case check_section i line acc of
           (open_sections, errors) \<Rightarrow> (open_sections, check_markup i line errors)))"

definition validate_syntax ::
  "nat \<Rightarrow> string \<Rightarrow> VMLLanguageHandler \<Rightarrow> (bool \<times> string list) \<times> VMLLanguageHandler" where
  "validate_syntax limit code h =
     (case parse limit code (parser h) of
        (Inl e, p) \<Rightarrow> ((False, [''Parser error: '' @ error_message e]), h\<lparr>parser := p\<rparr>)
      | (Inr els, p) \<Rightarrow>
          (case fold check_line (enumerate 0 (split_lines code)) ([], []) of
             (open_sections, errors) \<Rightarrow>
               let errors' = (if open_sections \<noteq> []
                              then errors @ [''Unclosed sections: '' @ join '', '' open_sections]
                              else errors)
               in ((errors' = [], errors'), h\<lparr>parser := p\<rparr>)))"

text \<open>\<^verbatim>\<open>re.match(r'^#{1,6}\s+', line)\<close> of \<open>format_code\<close>.\<close>

definition match_heading_prefix :: "string \<Rightarrow> bool" where
  "match_heading_prefix line =
     (let hashes = takeWhile (\<lambda>c. c = CHR ''#'') line;
          r = dropWhile (\<lambda>c. c = CHR ''#'') line
      in 1 \<le> length hashes \<and> length hashes \<le> 6 \<and> r \<noteq> [] \<and> is_space (hd r))"

definition format_code :: "nat \<Rightarrow> string \<Rightarrow> VMLLanguageHandler \<Rightarrow> string \<times> VMLLanguageHandler" where
  "format_code limit code h =
     (case parse limit code (parser h) of
        (Inl e, p) \<Rightarrow> (code, h\<lparr>parser := p\<rparr>)
      | (Inr els, p) \<Rightarrow>
          let formatted_lines =
                (if metadata p \<noteq> []
                 then [''---''] @ map (\<lambda>(key, val). key @ '': '' @ val) (metadata p)
                      @ [''---'' @ [newline]]
                 else []);
              formatted_lines' =
                fold (\<lambda>line acc.
                        if strip line = ''---'' then acc
                        else if match_heading_prefix line then acc @ [strip line, []]
                        else acc @ [line])
                     (split_lines code) formatted_lines
          in (join_lines formatted_lines', h\<lparr>parser := p\<rparr>))"


section \<open>One turn of the loop\<close>

text \<open>
  What one turn of the \<open>while\<close> loop of \<open>parse\<close> does at index \<open>i\<close>: it ends the call with a
  result, or it goes on at a later index with a new state. The branches are those of
  \<open>parse_loop\<close>, which is this step repeated.
\<close>

datatype loop_step = Stop "(error + VMLElement list) \<times> VMLParser" | Next nat VMLParser

definition parse_step :: "nat \<Rightarrow> string list \<Rightarrow> nat \<Rightarrow> VMLParser \<Rightarrow> loop_step" where
  "parse_step limit lines i st =
     (if i < length lines then
        if strip (lines ! i) = [] then Next (i + 1) st
        else if match_METADATA (lines ! i) then
          (case parse_metadata_block lines (i + 1) [] (metadata st) of
             (j, md) \<Rightarrow> Next j (st\<lparr>metadata := md\<rparr>))
        else
          (case match_DIRECTIVE (lines ! i) of
             Some directive_match \<Rightarrow>
               Next (i + 1) (append_element (parse_directive directive_match i) st)
           | None \<Rightarrow>
               if match_SECTION_START (lines ! i) \<noteq> None then
                 (case match_SECTION_START (lines ! i) of
                    None \<Rightarrow> Stop (Inl AttributeError, st)
                  | Some (section_name, params) \<Rightarrow>
                      (case section_scan lines section_name (i + 1) 1 [] of
                         (content_lines, j) \<Rightarrow>
                           if limit = 0 then Stop (Inl RecursionError, st)
                           else
                             (case fst (parse_loop (limit - 1) (split_lines (join_lines content_lines)) 0
                                          (VMLParser_init\<lparr>elements := []\<rparr>)) of
                                Inl e \<Rightarrow> Stop (Inl e, st)
                              | Inr kids \<Rightarrow>
                                  Next (j + 1)
                                    (append_element (section_element section_name params kids i) st))))
               else if match_HEADING (lines ! i) \<noteq> None then
                 (case parse_heading (lines ! i) i of
                    Inl e \<Rightarrow> Stop (Inl e, st)
                  | Inr element \<Rightarrow> Next (i + 1) (append_element element st))
               else if i + 1 < length lines \<and> match_TABLE_SEPARATOR (lines ! (i + 1)) then
                 (case parse_table lines i of
                    (element, j) \<Rightarrow> Next j (append_element element st))
               else Next (i + 1) (append_element (parse_paragraph (lines ! i) i) st))
      else Stop (Inr (elements st), st))"




section \<open>The specification's wording of two operations\<close>

text \<open>
  The inline cascade as the specification words it: variables, then templates, then annotations,
  then each custom markup pair in table order (emphasis, context, note, warning, success,
  code reference), then bold, then italic, then inline code, each on the output of the one
  before.
\<close>

definition inline_cascade_spec :: "string \<Rightarrow> string" where
  "inline_cascade_spec t =
     re_sub CODE_INLINE_PATTERN (tagged ''code'')
      (re_sub ITALIC_PATTERN (tagged ''i'')
        (re_sub BOLD_PATTERN (tagged ''b'')
          (re_sub (Lazy ''@['' '']@'') (tagged ''code_ref'')
            (re_sub (Lazy ''/+'' ''+/'') (tagged ''success'')
              (re_sub (Lazy ''/!'' ''!/'') (tagged ''warning'')
                (re_sub (Lazy ''(*'' ''*)'') (tagged ''note'')
                  (re_sub (Lazy ''<~'' ''~>'') (tagged ''context'')
                    (re_sub (Lazy ''!!'' ''!!'') (tagged ''emphasis'')
                      (re_sub ANNOTATION_PATTERN (tagged ''annotation'')
                        (re_sub TEMPLATE_PATTERN (tagged ''template'')
                          (re_sub VARIABLE_PATTERN (tagged ''var'') t)))))))))))"



section \<open>Facts about the text primitives\<close>



lemma split_plain: "sep \<notin> set x \<Longrightarrow> split sep x = [x]"
  by (induction x) (auto simp: Let_def)

lemma split_append: "sep \<notin> set x \<Longrightarrow> split sep (x @ sep # r) = x # split sep r"
  by (induction x) (auto simp: Let_def)

lemma split_join:
  "ls \<noteq> [] \<Longrightarrow> \<forall>l\<in>set ls. sep \<notin> set l \<Longrightarrow> split sep (join [sep] ls) = ls"
proof (induction "[sep]" ls rule: join.induct)
  case 1
  then show ?case by simp
next
  case (2 x)
  then show ?case by (simp add: split_plain)
next
  case (3 x y ys)
  then show ?case by (simp add: split_append)
qed

lemma split_lines_join_lines:
  "ls \<noteq> [] \<Longrightarrow> \<forall>l\<in>set ls. newline \<notin> set l \<Longrightarrow> split_lines (join_lines ls) = ls"
  by (simp add: split_lines_def join_lines_def split_join)



section \<open>The validator on sections and emphasis\<close>

text \<open>
  C1. The claim: a text whose sections are correctly nested, with matching names, is valid and
  has no diagnostics. The code at the text of three lines \<open>:: foo\<close>, \<open>content\<close>, \<open>:: /foo\<close>: the
  pattern of the scan wants a word character after \<open>::\<close> and its white space, so the end marker
  is no match, the branch for closing tags is never entered, \<open>foo\<close> stays on the stack and the
  text is reported invalid.
\<close>

theorem validate_matched_section_rejected:
  "fst (validate_syntax 100 ('':: foo'' @ [newline] @ ''content'' @ [newline] @ '':: /foo'')
          VMLLanguageHandler_init)
   = (False, [''Unclosed sections: foo''])"
  by code_simp

text \<open>
  C2. The claim: for the three lines \<open>:: foo\<close>, \<open>content\<close>, \<open>:: /bar\<close> the result is invalid, with
  a diagnostic for the unmatched closing tag \<open>bar\<close> on line 3 and one for the unclosed section
  \<open>foo\<close>. The code: invalid, and the only diagnostic is the one for \<open>foo\<close>; line 3 raises none.
\<close>

theorem validate_mismatched_close_only_unclosed:
  "fst (validate_syntax 100 ('':: foo'' @ [newline] @ ''content'' @ [newline] @ '':: /bar'')
          VMLLanguageHandler_init)
   = (False, [''Unclosed sections: foo''])"
  by code_simp

text \<open>
  C5. The claim: the line \<open>!!urgent\<close> gets an "unclosed emphasis markup" diagnostic and the line
  \<open>!!urgent!!\<close> gets none. The code: the opening and the closing string of emphasis are the same
  string, their two counts are the same number, and neither line gets a diagnostic.
\<close>

theorem validate_unterminated_emphasis_accepted:
  "fst (validate_syntax 100 ''!!urgent'' VMLLanguageHandler_init) = (True, [])
   \<and> fst (validate_syntax 100 ''!!urgent!!'' VMLLanguageHandler_init) = (True, [])"
  by code_simp

section \<open>What a parser keeps between two calls\<close>

text \<open>
  C3. The claim: a second \<open>parse\<close> on the same parser gives the elements and the metadata that it
  gives on a new parser. The code: \<open>parse\<close> empties \<open>self.elements\<close> and leaves \<open>self.metadata\<close>,
  so after a first text with the metadata block \<open>a: 1\<close> the second call, on the text \<open>hello\<close>,
  ends with that pair in the metadata, and on a new parser with none. The elements agree.
\<close>

theorem parse_keeps_metadata_of_earlier_call:
  "metadata (snd (parse 100 ''hello''
       (snd (parse 100 (''---'' @ [newline] @ ''a: 1'' @ [newline] @ ''---'') VMLParser_init))))
     = [(''a'', ''1'')]
   \<and> metadata (snd (parse 100 ''hello'' VMLParser_init)) = []
   \<and> fst (parse 100 ''hello''
       (snd (parse 100 (''---'' @ [newline] @ ''a: 1'' @ [newline] @ ''---'') VMLParser_init)))
     = fst (parse 100 ''hello'' VMLParser_init)"
  by code_simp


section \<open>Metadata blocks\<close>









section \<open>The inline cascade\<close>

text \<open>
  C6. For every text, the parser's inline substitution is the cascade of the specification:
  the twelve substitutions in its fixed order, each on the output of the one before.
\<close>

theorem process_inline_elements_is_cascade:
  "process_inline_elements t = inline_cascade_spec t"
  by (simp add: process_inline_elements_def inline_cascade_spec_def CUSTOM_MARKUP_def)

section \<open>The formatter on a text that does not parse\<close>

text \<open>
  C8. For every text \<open>X\<close> on which \<open>parse\<close> raises, \<open>format_code\<close> returns \<open>X\<close> unchanged.
\<close>

theorem format_code_returns_input_on_error:
  "fst (parse limit X (parser h)) = Inl e \<Longrightarrow> fst (format_code limit X h) = X"
  by (cases "parse limit X (parser h)") (simp add: format_code_def)

theorem format_code_returns_input_on_error_witness:
  "fst (parse 1 ('':: a'' @ [newline] @ '':: b'') (parser VMLLanguageHandler_init))
     = Inl RecursionError
   \<and> fst (format_code 1 ('':: a'' @ [newline] @ '':: b'') VMLLanguageHandler_init)
     = '':: a'' @ [newline] @ '':: b''"
proof -
  have h: "fst (parse 1 ('':: a'' @ [newline] @ '':: b'') (parser VMLLanguageHandler_init))
           = Inl RecursionError"
    by code_simp
  from format_code_returns_input_on_error[OF h] h show ?thesis by simp
qed

section \<open>Attribute strings\<close>









section \<open>The loop, step by step\<close>

lemma parse_loop_step:
  "parse_loop limit lines i st =
     (case parse_step limit lines i st of Stop r \<Rightarrow> r | Next j st' \<Rightarrow> parse_loop limit lines j st')"
  unfolding parse_step_def
  by (subst parse_loop.simps)
     (simp only: if_distrib[where f="case_loop_step _ _"]
        option.case_distrib[where h="case_loop_step _ _"]
        prod.case_distrib[where h="case_loop_step _ _"]
        sum.case_distrib[where h="case_loop_step _ _"]
        loop_step.case)


























section \<open>Malformed markup\<close>



section \<open>Sections nested deeper than the stack allows\<close>

text \<open>
  The budget of the theorem above cannot be lowered: for every \<open>limit\<close> the text of
  \<open>limit + 1\<close> lines \<open>:: a\<close>, each opening a section inside the one before, makes \<open>parse\<close>
  raise. So there is, for every stack, a text on which \<open>parse\<close> raises.
\<close>

lemma section_scan_all_starts:
  assumes "match_SECTION_START s \<noteq> None"
  shows "0 < k \<Longrightarrow> i \<le> n \<Longrightarrow>
         section_scan (replicate n s) nm i k cl = (cl @ replicate (n - i) s, n)"
proof (induction "n - i" arbitrary: i k cl)
  case 0
  then show ?case by (subst section_scan.simps) simp
next
  case (Suc m)
  then have i: "i < n" and m: "m = n - (i + 1)" by arith+
  have "section_scan (replicate n s) nm (i + 1) (k + 1) (cl @ [s])
        = ((cl @ [s]) @ replicate (n - (i + 1)) s, n)"
    using Suc.hyps(1)[OF m] i by simp
  moreover have "replicate (n - i) s = s # replicate (n - (i + 1)) s"
    using i by (metis Suc.hyps(2) m replicate_Suc)
  ultimately show ?case
    using i assms Suc.prems by (subst section_scan.simps) simp
qed

lemma parse_loop_deep_nesting:
  "parse_loop limit (replicate (Suc limit) '':: a'') 0 st = (Inl RecursionError, st)"
proof (induction limit arbitrary: st)
  case 0
  have "section_scan ['':: a''] ''a'' (Suc 0) (Suc 0) [] = ([], Suc 0)"
    by (subst section_scan.simps) simp
  moreover have "strip '':: a'' \<noteq> []" "\<not> match_METADATA '':: a''"
    "match_DIRECTIVE '':: a'' = None" "match_SECTION_START '':: a'' = Some (''a'', None)"
    by code_simp+
  ultimately have "parse_step 0 (replicate (Suc 0) '':: a'') 0 st = Stop (Inl RecursionError, st)"
    by (simp add: parse_step_def)
  then show ?case by (simp add: parse_loop_step[of 0 _ 0])
next
  case (Suc n)
  have start: "match_SECTION_START '':: a'' \<noteq> None" by code_simp
  have "section_scan (replicate (Suc (Suc n)) '':: a'') ''a'' (Suc 0) (Suc 0) []
        = ([] @ replicate (Suc (Suc n) - Suc 0) '':: a'', Suc (Suc n))"
    using start by (intro section_scan_all_starts) simp_all
  then have scan: "section_scan ('':: a'' # '':: a'' # replicate n '':: a'') ''a'' (Suc 0) (Suc 0) []
                   = (replicate (Suc n) '':: a'', Suc (Suc n))"
    by simp
  have "split_lines (join_lines (replicate (Suc n) '':: a'')) = replicate (Suc n) '':: a''"
    by (intro split_lines_join_lines) (simp_all add: newline_def)
  then have nested: "fst (parse_loop n (split_lines (join_lines (replicate (Suc n) '':: a''))) 0
                            (VMLParser_init\<lparr>elements := []\<rparr>)) = Inl RecursionError"
    by (simp add: Suc.IH[simplified])
  have "strip '':: a'' \<noteq> []" "\<not> match_METADATA '':: a''"
    "match_DIRECTIVE '':: a'' = None" "match_SECTION_START '':: a'' = Some (''a'', None)"
    by code_simp+
  with scan nested
  have "parse_step (Suc n) (replicate (Suc (Suc n)) '':: a'') 0 st = Stop (Inl RecursionError, st)"
    by (simp add: parse_step_def)
  then show ?case by (simp add: parse_loop_step[of "Suc n" _ 0])
qed

lemma parse_raises_on_deep_nesting:
  "fst (parse limit (join_lines (replicate (Suc limit) '':: a'')) st) = Inl RecursionError"
proof -
  have "split_lines (join_lines (replicate (Suc limit) '':: a'')) = replicate (Suc limit) '':: a''"
    by (intro split_lines_join_lines) (simp_all add: newline_def)
  then show ?thesis by (simp add: parse_def parse_loop_deep_nesting[simplified])
qed

section \<open>Headings\<close>




end
